theory Spec2Isabelle
  imports Main
begin

section \<open>JavaScript values, objects and strings\<close>

text \<open>
  The scripts of the repository are browser glue: they read the page, wrap the
  \<^verbatim>\<open>ajax.data\<close> function of a select2 widget, rewrite the query string and insert a few
  elements. The model keeps the values they handle: exceptions are values of \<open>error\<close>,
  a plain object is the list of its properties in insertion order, and assigning a
  property (\<^verbatim>\<open>data.store_id = v\<close>) overwrites it in place or appends it.
\<close>

datatype error = TypeError | ReferenceError | HierarchyRequestError

datatype jsval = Str string | Num int | Bool bool | Null | Undef

type_synonym obj = "(string \<times> jsval) list"

fun set_prop :: "string \<Rightarrow> jsval \<Rightarrow> obj \<Rightarrow> obj" where
  "set_prop k v [] = [(k, v)]"
| "set_prop k v ((k', v') # ps) =
     (if k' = k then (k, v) # ps else (k', v') # set_prop k v ps)"

definition get_prop :: "obj \<Rightarrow> string \<Rightarrow> jsval option" where
  "get_prop ob k = map_of ob k"

definition has_prop :: "obj \<Rightarrow> string \<Rightarrow> bool" where
  "has_prop ob k = (map_of ob k \<noteq> None)"

fun starts_with :: "string \<Rightarrow> string \<Rightarrow> bool" where
  "starts_with [] s = True"
| "starts_with (p # ps) [] = False"
| "starts_with (p # ps) (c # cs) = (p = c \<and> starts_with ps cs)"

text \<open>\<^verbatim>\<open>s.includes(sub)\<close>, the test of an attribute selector \<^verbatim>\<open>[href*="..."]\<close>.\<close>

fun str_includes :: "string \<Rightarrow> string \<Rightarrow> bool" where
  "str_includes sub [] = (sub = [])"
| "str_includes sub (c # cs) = (starts_with sub (c # cs) \<or> str_includes sub cs)"

text \<open>\<^verbatim>\<open>s.endsWith(suf)\<close>, the test of an attribute selector \<^verbatim>\<open>[name$="..."]\<close>.\<close>

definition ends_with :: "string \<Rightarrow> string \<Rightarrow> bool" where
  "ends_with suf s = starts_with (rev suf) (rev s)"

definition is_digit :: "char \<Rightarrow> bool" where
  "is_digit c = (c \<in> set ''0123456789'')"

text \<open>
  The regular expression \<^verbatim>\<open>/\/(\d+)\/change\/?$/\<close> of
  \<^verbatim>\<open>store_employee_autocomplete_by_service.js\<close> line 16. \<open>match_here\<close> tries it at the
  start of the text: a slash, the longest run of digits (at least one; a shorter run
  would be followed by a digit, never by the slash), then \<^verbatim>\<open>/change\<close>, an optional
  slash and the end of the text. \<open>match_change\<close> is \<^verbatim>\<open>href.match(re)\<close> followed by
  \<^verbatim>\<open>m[1]\<close>: the leftmost position where it matches, and the digits captured there.
\<close>

definition match_here :: "string \<Rightarrow> string option" where
  "match_here s =
     (case s of
        [] \<Rightarrow> None
      | c # r \<Rightarrow>
          (let ds = takeWhile is_digit r; rest = dropWhile is_digit r
           in if c = CHR ''/'' \<and> ds \<noteq> [] \<and> (rest = ''/change'' \<or> rest = ''/change/'')
              then Some ds else None))"

fun match_change :: "string \<Rightarrow> string option" where
  "match_change [] = None"
| "match_change (c # cs) =
     (case match_here (c # cs) of Some d \<Rightarrow> Some d | None \<Rightarrow> match_change cs)"

section \<open>The page around a widget\<close>

text \<open>
  What the two extractors read of the table row (\<^verbatim>\<open>closest("tr")\<close>) around a widget:
  the \<^verbatim>\<open>href\<close> of its links, in document order, and the name and value of its
  hidden inputs, in document order.
\<close>

record row =
  links :: "string list"
  hidden_inputs :: "(string \<times> string) list"

text \<open>
  \<^verbatim>\<open>getStoreIdFromRow($row)\<close> of \<^verbatim>\<open>store_employee_autocomplete_by_service.js\<close>
  (lines 10 to 18): the first link whose href contains \<^verbatim>\<open>/change/\<close>, matched against the
  regular expression; \<^verbatim>\<open>null\<close> is \<open>None\<close>. An empty jQuery set (no row) finds no link.
\<close>

definition getStoreIdFromRow :: "row option \<Rightarrow> string option" where
  "getStoreIdFromRow r =
     (case r of
        None \<Rightarrow> None
      | Some tr \<Rightarrow>
          (case filter (str_includes ''/change/'') (links tr) of
             [] \<Rightarrow> None
           | href # _ \<Rightarrow> match_change href))"

text \<open>
  jQuery's \<^verbatim>\<open>.val()\<close> on an input: the \<^verbatim>\<open>value\<close> of the element with every carriage return
  removed.
\<close>

definition jq_val :: "string \<Rightarrow> string" where
  "jq_val v = filter (\<lambda>c. c \<noteq> CHR 0x0D) v"

text \<open>
  \<^verbatim>\<open>getStoreIdFromRow(selectEl)\<close> of \<^verbatim>\<open>store_changelist_filters.js\<close> (lines 71 to 77):
  \<^verbatim>\<open>.val()\<close> of the first hidden input whose name ends with \<^verbatim>\<open>-id\<close>, and the empty
  string when there is none or when the library handle \<^verbatim>\<open>$\<close> is \<^verbatim>\<open>null\<close>.
\<close>

definition getStoreIdFromRow_cl :: "bool \<Rightarrow> row option \<Rightarrow> string" where
  "getStoreIdFromRow_cl jq r =
     (if \<not> jq then ''''
      else case r of
        None \<Rightarrow> ''''
      | Some tr \<Rightarrow>
          (case filter (\<lambda>(n, v). ends_with ''-id'' n) (hidden_inputs tr) of
             [] \<Rightarrow> ''''
           | (n, v) # _ \<Rightarrow> jq_val v))"

section \<open>The request-parameter function and its wrappers\<close>

text \<open>
  The value of \<^verbatim>\<open>ajax.data\<close>: \<^verbatim>\<open>undefined\<close>, a function, or a plain object (jQuery
  accepts one). A function is the host's own (\<open>Host\<close>), the closure that
  \<^verbatim>\<open>patchSelect2Ajax\<close> installs (\<open>Augmented\<close>, capturing \<^verbatim>\<open>oldData\<close>) or the closure that
  \<^verbatim>\<open>patchEmployeeSelect2\<close> installs (\<open>Augmented_cl\<close>, capturing \<^verbatim>\<open>oldData\<close>). Neither
  closure captures a value read from the page: both read the row when they are called.
\<close>

datatype data_fn = Host "obj \<Rightarrow> obj" | Augmented slot | Augmented_cl slot
and slot = Undefined | Function data_fn | Object obj

text \<open>
  Calling the function stored in \<^verbatim>\<open>ajax.data\<close> with \<^verbatim>\<open>params\<close>, on a page whose library
  handle is \<open>jq\<close> and where the widget's row is \<open>tr\<close>.

  \<^verbatim>\<open>patchSelect2Ajax\<close>, lines 27 to 36:
  \<^verbatim>\<open>data = oldData ? oldData(params) : params; if (storeId) data.store_id = storeId\<close>.
  A truthy \<^verbatim>\<open>oldData\<close> that is not a function raises a TypeError when called. The captured
  string is never empty (\<^verbatim>\<open>\d+\<close>), so \<^verbatim>\<open>if (storeId)\<close> tests for \<^verbatim>\<open>null\<close>.

  \<^verbatim>\<open>patchEmployeeSelect2\<close>, lines 95 to 99:
  \<^verbatim>\<open>data = (typeof oldData === "function") ? oldData(params) : (oldData || {});
  data.store_id = getStoreIdFromRow(selectEl)\<close>.
\<close>

fun call_data :: "bool \<Rightarrow> row option \<Rightarrow> data_fn \<Rightarrow> obj \<Rightarrow> error + obj"
and old_data :: "bool \<Rightarrow> row option \<Rightarrow> slot \<Rightarrow> obj \<Rightarrow> error + obj"
and old_data_cl :: "bool \<Rightarrow> row option \<Rightarrow> slot \<Rightarrow> obj \<Rightarrow> error + obj" where
  "call_data jq tr (Host f) params = Inr (f params)"
| "call_data jq tr (Augmented oldData) params =
     (case old_data jq tr oldData params of
        Inl e \<Rightarrow> Inl e
      | Inr d \<Rightarrow>
          (case getStoreIdFromRow tr of
             Some storeId \<Rightarrow> Inr (set_prop ''store_id'' (Str storeId) d)
           | None \<Rightarrow> Inr d))"
| "call_data jq tr (Augmented_cl oldData) params =
     (case old_data_cl jq tr oldData params of
        Inl e \<Rightarrow> Inl e
      | Inr d \<Rightarrow> Inr (set_prop ''store_id'' (Str (getStoreIdFromRow_cl jq tr)) d))"
| "old_data jq tr Undefined params = Inr params"
| "old_data jq tr (Function g) params = call_data jq tr g params"
| "old_data jq tr (Object ob) params = Inl TypeError"
| "old_data_cl jq tr Undefined params = Inr []"
| "old_data_cl jq tr (Function g) params = call_data jq tr g params"
| "old_data_cl jq tr (Object ob) params = Inr ob"

section \<open>The widget and the two patch procedures\<close>

text \<open>
  A widget instance as the scripts see it: the select2 object that jQuery keeps for the
  element (\<^verbatim>\<open>$el.data("select2")\<close>, absent until select2 has initialised), the marker
  \<^verbatim>\<open>$el.data("patchedStoreId")\<close>, and the table row around the element. The select2
  object is reached as \<^verbatim>\<open>s2.options.options.ajax.data\<close>; every level may be missing.
\<close>

record ajax_cfg =
  data :: slot

record opts =
  ajax :: "ajax_cfg option"

record options_obj =
  options_dict :: "opts option"

record select2_inst =
  options :: "options_obj option"

record widget =
  select2 :: "select2_inst option"
  patchedStoreId :: bool
  closest_tr :: "row option"

text \<open>The assignment \<^verbatim>\<open>s2.options.options.ajax.data = d\<close> on a widget where every level exists.\<close>

definition assign_data :: "slot \<Rightarrow> widget \<Rightarrow> select2_inst \<Rightarrow> options_obj \<Rightarrow> opts \<Rightarrow> ajax_cfg \<Rightarrow> widget" where
  "assign_data d w s2 oo od a =
     w\<lparr>select2 := Some (s2\<lparr>options := Some (oo\<lparr>options_dict := Some (od\<lparr>ajax := Some (a\<lparr>data := d\<rparr>)\<rparr>)\<rparr>)\<rparr>)\<rparr>"

text \<open>What select2 reads when it sends a request: \<^verbatim>\<open>s2.options.options.ajax.data\<close>.\<close>

definition installed :: "widget \<Rightarrow> slot option" where
  "installed w =
     (case select2 w of
        None \<Rightarrow> None
      | Some s2 \<Rightarrow>
          (case options s2 of
             None \<Rightarrow> None
           | Some oo \<Rightarrow>
               (case options_dict oo of
                  None \<Rightarrow> None
                | Some od \<Rightarrow> (case ajax od of None \<Rightarrow> None | Some a \<Rightarrow> Some (data a)))))"

text \<open>
  \<^verbatim>\<open>patchSelect2Ajax($input)\<close> of \<^verbatim>\<open>store_employee_autocomplete_by_service.js\<close>
  (lines 20 to 37). Line 23 returns when any level is missing; otherwise the closure
  replaces \<^verbatim>\<open>ajax.data\<close>. The function checks no marker and sets none.
\<close>

definition patchSelect2Ajax :: "widget \<Rightarrow> error + widget" where
  "patchSelect2Ajax w =
     (case select2 w of
        None \<Rightarrow> Inr w
      | Some s2 \<Rightarrow>
          (case options s2 of
             None \<Rightarrow> Inr w
           | Some oo \<Rightarrow>
               (case options_dict oo of
                  None \<Rightarrow> Inr w
                | Some od \<Rightarrow>
                    (case ajax od of
                       None \<Rightarrow> Inr w
                     | Some a \<Rightarrow> Inr (assign_data (Function (Augmented (data a))) w s2 oo od a)))))"

text \<open>
  \<^verbatim>\<open>patchEmployeeSelect2(selectEl)\<close> of \<^verbatim>\<open>store_changelist_filters.js\<close> (lines 79 to
  102), with the library handle \<^verbatim>\<open>$\<close> as \<open>jq\<close>. Line 90 reads \<^verbatim>\<open>s2.options.options\<close>
  and line 91 reads \<^verbatim>\<open>opts.ajax\<close> without a check, so a select2 object without them
  raises a TypeError. The marker is set after the closure is installed.
\<close>

definition patchEmployeeSelect2 :: "bool \<Rightarrow> widget \<Rightarrow> error + widget" where
  "patchEmployeeSelect2 jq w =
     (if \<not> jq then Inr w
      else if patchedStoreId w then Inr w
      else case select2 w of
        None \<Rightarrow> Inr w
      | Some s2 \<Rightarrow>
          (case options s2 of
             None \<Rightarrow> Inl TypeError
           | Some oo \<Rightarrow>
               (case options_dict oo of
                  None \<Rightarrow> Inl TypeError
                | Some od \<Rightarrow>
                    (case ajax od of
                       None \<Rightarrow> Inr w
                     | Some a \<Rightarrow>
                         Inr ((assign_data (Function (Augmented_cl (data a))) w s2 oo od a)
                                \<lparr>patchedStoreId := True\<rparr>)))))"

text \<open>A select2 object as the library builds it, with the given \<^verbatim>\<open>ajax\<close> settings.\<close>

definition mk_select2 :: "ajax_cfg option \<Rightarrow> select2_inst" where
  "mk_select2 a = \<lparr>options = Some \<lparr>options_dict = Some \<lparr>ajax = a\<rparr>\<rparr>\<rparr>"

definition mk_widget :: "ajax_cfg option \<Rightarrow> row option \<Rightarrow> widget" where
  "mk_widget a tr = \<lparr>select2 = Some (mk_select2 a), patchedStoreId = False, closest_tr = tr\<rparr>"

section \<open>The query string\<close>

text \<open>
  \<^verbatim>\<open>URLSearchParams\<close> as the list of its name-value pairs, in order. \<^verbatim>\<open>delete(name)\<close>
  removes every pair of that name; \<^verbatim>\<open>set(name, v)\<close> overwrites the first pair of that
  name and removes the others, or appends a pair when there is none; \<^verbatim>\<open>get(name)\<close> is the
  value of the first pair of that name. A location is the path and the parameters of
  \<^verbatim>\<open>new URL(window.location.href)\<close>.
\<close>

type_synonym search_params = "(string \<times> string) list"

record location =
  pathname :: string
  searchParams :: search_params

definition sp_delete :: "string \<Rightarrow> search_params \<Rightarrow> search_params" where
  "sp_delete name ps = filter (\<lambda>(k, v). k \<noteq> name) ps"

fun sp_set :: "string \<Rightarrow> string \<Rightarrow> search_params \<Rightarrow> search_params" where
  "sp_set name v [] = [(name, v)]"
| "sp_set name v ((k, x) # ps) =
     (if k = name then (name, v) # sp_delete name ps else (k, x) # sp_set name v ps)"

definition sp_get :: "string \<Rightarrow> search_params \<Rightarrow> string option" where
  "sp_get name ps = map_of ps name"

text \<open>
  \<^verbatim>\<open>updateQuery(param, value)\<close> of \<^verbatim>\<open>store_changelist_filters.js\<close> (lines 2 to 16). The
  value is the \<^verbatim>\<open>value\<close> of a select element, a string, so \<^verbatim>\<open>!value\<close> tests for the empty
  string. The result is the location that line 15 navigates to:
  \<^verbatim>\<open>url.pathname + "?" + params.toString()\<close>.
\<close>

definition updateQuery :: "string \<Rightarrow> string \<Rightarrow> location \<Rightarrow> location" where
  "updateQuery param v loc =
     (let params = sp_delete ''p'' (searchParams loc);
          params' = (if v = '''' then sp_delete param params else sp_set param v params)
      in \<lparr>pathname = pathname loc, searchParams = params'\<rparr>)"

text \<open>\<^verbatim>\<open>getCurrent(param)\<close> (lines 18 to 21): \<^verbatim>\<open>url.searchParams.get(param) || ""\<close>.\<close>

definition getCurrent :: "string \<Rightarrow> location \<Rightarrow> string" where
  "getCurrent param loc = (case sp_get param (searchParams loc) of None \<Rightarrow> '''' | Some v \<Rightarrow> v)"

section \<open>The document\<close>

text \<open>
  A document is the tree under its root element. An element has a tag, an id (empty
  when it has none), its class list, its other attributes and its child nodes, text
  nodes included.
\<close>

datatype node =
  Element (tag: string) (ident: string) (classes: "string list")
    (attrs: "(string \<times> string) list") (children: "node list")
| Text string

text \<open>
  The selectors that the scripts pass to \<^verbatim>\<open>querySelector\<close>: \<^verbatim>\<open>#id\<close>, \<^verbatim>\<open>.class\<close>,
  \<^verbatim>\<open>tag.class\<close> and \<^verbatim>\<open>tag[attr="v"]\<close>, and the descendant combinator \<^verbatim>\<open>a s\<close> of two of
  them (\<^verbatim>\<open>#changelist .actions\<close>). None of them looks at the children of the element it
  tests.
\<close>

datatype simple_sel =
  ById string | ByClass string | ByTagClass string string | ByTagAttr string string string

fun matches :: "simple_sel \<Rightarrow> node \<Rightarrow> bool" where
  "matches s (Text x) = False"
| "matches (ById i) (Element t i' cs as ch) = (i' = i)"
| "matches (ByClass c) (Element t i' cs as ch) = (c \<in> set cs)"
| "matches (ByTagClass t c) (Element t' i' cs as ch) = (t' = t \<and> c \<in> set cs)"
| "matches (ByTagAttr t a v) (Element t' i' cs as ch) = (t' = t \<and> map_of as a = Some v)"

datatype selector = Simple simple_sel | Desc simple_sel simple_sel

text \<open>
  The search walks the tree in document order and carries \<open>inside\<close>: whether a proper
  ancestor of the node matches the left part of a descendant selector. \<open>hit\<close> says
  whether the node is selected, \<open>enter\<close> is the flag for its children.
\<close>

fun hit :: "selector \<Rightarrow> bool \<Rightarrow> node \<Rightarrow> bool" where
  "hit (Simple s) inside n = matches s n"
| "hit (Desc a s) inside n = (inside \<and> matches s n)"

fun enter :: "selector \<Rightarrow> bool \<Rightarrow> node \<Rightarrow> bool" where
  "enter (Simple s) inside n = inside"
| "enter (Desc a s) inside n = (inside \<or> matches a n)"

fun find_first :: "selector \<Rightarrow> bool \<Rightarrow> node \<Rightarrow> node option"
and find_first_list :: "selector \<Rightarrow> bool \<Rightarrow> node list \<Rightarrow> node option" where
  "find_first sel inside (Text x) = None"
| "find_first sel inside (Element t i cs as ch) =
     (if hit sel inside (Element t i cs as ch) then Some (Element t i cs as ch)
      else find_first_list sel (enter sel inside (Element t i cs as ch)) ch)"
| "find_first_list sel inside [] = None"
| "find_first_list sel inside (n # ns) =
     (case find_first sel inside n of
        Some r \<Rightarrow> Some r
      | None \<Rightarrow> find_first_list sel inside ns)"

text \<open>
  \<^verbatim>\<open>document.querySelector(sel)\<close> (and \<^verbatim>\<open>getElementById\<close>, with \<open>ById\<close>): the first
  element of the document, the root included. \<^verbatim>\<open>el.querySelector(s)\<close>: the first
  descendant of \<open>el\<close>, itself excluded.
\<close>

definition querySelector :: "selector \<Rightarrow> node \<Rightarrow> node option" where
  "querySelector sel doc = find_first sel False doc"

definition querySelector_in :: "simple_sel \<Rightarrow> node \<Rightarrow> node option" where
  "querySelector_in s el =
     (case el of Text x \<Rightarrow> None | Element t i cs as ch \<Rightarrow> find_first_list (Simple s) False ch)"

text \<open>\<^verbatim>\<open>el.appendChild(new)\<close> on the element itself.\<close>

fun appendChild :: "node \<Rightarrow> node \<Rightarrow> node" where
  "appendChild new (Element t i cs as ch) = Element t i cs as (ch @ [new])"
| "appendChild new (Text x) = Text x"

text \<open>
  The scripts change the element that \<^verbatim>\<open>querySelector\<close> returned; the tree has no
  references, so the model walks to the first selected element again and rebuilds the
  path to it. \<open>append_first\<close> is \<^verbatim>\<open>el.appendChild(new)\<close> on that element; the result is
  \<open>None\<close> when no element is selected.
\<close>

fun append_first :: "selector \<Rightarrow> node \<Rightarrow> bool \<Rightarrow> node \<Rightarrow> node option"
and append_first_list :: "selector \<Rightarrow> node \<Rightarrow> bool \<Rightarrow> node list \<Rightarrow> node list option" where
  "append_first sel new inside (Text x) = None"
| "append_first sel new inside (Element t i cs as ch) =
     (if hit sel inside (Element t i cs as ch) then Some (Element t i cs as (ch @ [new]))
      else case append_first_list sel new (enter sel inside (Element t i cs as ch)) ch of
             Some ch' \<Rightarrow> Some (Element t i cs as ch')
           | None \<Rightarrow> None)"
| "append_first_list sel new inside [] = None"
| "append_first_list sel new inside (n # ns) =
     (case append_first sel new inside n of
        Some n' \<Rightarrow> Some (n' # ns)
      | None \<Rightarrow>
          (case append_first_list sel new inside ns of
             Some ns' \<Rightarrow> Some (n # ns')
           | None \<Rightarrow> None))"

text \<open>
  \<open>insert_rel\<close> is \<^verbatim>\<open>el.parentNode.insertBefore(new, el)\<close> (\<open>after\<close> false) or
  \<^verbatim>\<open>el.parentNode.insertBefore(new, el.nextSibling)\<close> (\<open>after\<close> true) for the first
  selected element \<open>el\<close> among the given siblings and their descendants. \<open>insert_at\<close> is
  the same on a document: the parent of the root element is the document itself, which
  takes no second element child, so the DOM raises a HierarchyRequestError there.
\<close>

fun insert_rel :: "selector \<Rightarrow> bool \<Rightarrow> node \<Rightarrow> bool \<Rightarrow> node list \<Rightarrow> node list option" where
  "insert_rel sel after new inside [] = None"
| "insert_rel sel after new inside (Text x # ns) =
     (case insert_rel sel after new inside ns of
        Some ns' \<Rightarrow> Some (Text x # ns')
      | None \<Rightarrow> None)"
| "insert_rel sel after new inside (Element t i cs as ch # ns) =
     (if hit sel inside (Element t i cs as ch)
      then Some (if after then Element t i cs as ch # new # ns
                 else new # Element t i cs as ch # ns)
      else case insert_rel sel after new (enter sel inside (Element t i cs as ch)) ch of
             Some ch' \<Rightarrow> Some (Element t i cs as ch' # ns)
           | None \<Rightarrow>
               (case insert_rel sel after new inside ns of
                  Some ns' \<Rightarrow> Some (Element t i cs as ch # ns')
                | None \<Rightarrow> None))"

definition insert_at :: "selector \<Rightarrow> bool \<Rightarrow> node \<Rightarrow> node \<Rightarrow> error + node" where
  "insert_at sel after new doc =
     (case doc of
        Text x \<Rightarrow> Inr doc
      | Element t i cs as ch \<Rightarrow>
          if hit sel False doc then Inl HierarchyRequestError
          else case insert_rel sel after new (enter sel False doc) ch of
                 Some ch' \<Rightarrow> Inr (Element t i cs as ch')
               | None \<Rightarrow> Inr doc)"

text \<open>
  \<^verbatim>\<open>document.body.appendChild(new)\<close>: \<^verbatim>\<open>document.body\<close> is the first \<^verbatim>\<open>body\<close> child of the
  root element, and \<^verbatim>\<open>null\<close> when there is none, where the call raises a TypeError.
\<close>

fun append_to_body :: "node \<Rightarrow> node list \<Rightarrow> node list option" where
  "append_to_body new [] = None"
| "append_to_body new (Text x # ns) =
     (case append_to_body new ns of Some ns' \<Rightarrow> Some (Text x # ns') | None \<Rightarrow> None)"
| "append_to_body new (Element t i cs as ch # ns) =
     (if t = ''body'' then Some (Element t i cs as (ch @ [new]) # ns)
      else case append_to_body new ns of
             Some ns' \<Rightarrow> Some (Element t i cs as ch # ns')
           | None \<Rightarrow> None)"

definition body_appendChild :: "node \<Rightarrow> node \<Rightarrow> error + node" where
  "body_appendChild new doc =
     (case doc of
        Text x \<Rightarrow> Inl TypeError
      | Element t i cs as ch \<Rightarrow>
          (case append_to_body new ch of
             Some ch' \<Rightarrow> Inr (Element t i cs as ch')
           | None \<Rightarrow> Inl TypeError))"

section \<open>The three insertions\<close>

text \<open>
  \<^verbatim>\<open>injectServiceFilter()\<close> of \<^verbatim>\<open>store_changelist_filters.js\<close> (lines 23 to 62). The
  visible labels of the four options are Russian text in the source; \<open>label\<close> gives the
  label of each option value. A style property is kept as a \<^verbatim>\<open>style\<close> attribute and
  \<^verbatim>\<open>opt.selected = true\<close> as a \<^verbatim>\<open>selected\<close> attribute. The \<^verbatim>\<open>change\<close> listener of the select
  (lines 56 to 58) calls \<open>updateQuery ''service''\<close> with the value of the select; a
  listener is no part of the tree.
\<close>

definition option_el :: "string \<Rightarrow> string \<Rightarrow> string \<Rightarrow> node" where
  "option_el current v label =
     Element ''option'' '''' []
       ((''value'', v) # (if v = current then [(''selected'', '''')] else []))
       [Text label]"

definition service_filter_wrap :: "(string \<Rightarrow> string) \<Rightarrow> location \<Rightarrow> node" where
  "service_filter_wrap label loc =
     Element ''div'' '''' [] [(''style'', ''margin-top: 6px;'')]
       [Element ''select'' '''' [''service-filter-select''] [(''style'', ''width: 100%;'')]
          (map (\<lambda>v. option_el (getCurrent ''service'' loc) v (label v))
             ['''', ''cleaning_only'', ''merch_only'', ''both''])]"

definition injectServiceFilter :: "(string \<Rightarrow> string) \<Rightarrow> location \<Rightarrow> node \<Rightarrow> node" where
  "injectServiceFilter label loc doc =
     (case querySelector (Simple (ByTagClass ''th'' ''column-services'')) doc of
        None \<Rightarrow> doc
      | Some th \<Rightarrow>
          if querySelector_in (ByClass ''service-filter-select'') th \<noteq> None then doc
          else case append_first (Simple (ByTagClass ''th'' ''column-services''))
                      (service_filter_wrap label loc) False doc of
                 Some doc' \<Rightarrow> doc'
               | None \<Rightarrow> doc)"

text \<open>
  \<^verbatim>\<open>mountTopFilters()\<close> of \<^verbatim>\<open>store_changelist_header_filters.js\<close> (lines 78 to 106). The
  two filter titles are Russian text in the source (\<open>Status\<close> and \<open>Services\<close> stand for
  them). \<^verbatim>\<open>findUlForFilterTitle\<close> (lines 6 to 34) and \<^verbatim>\<open>makeDropdown\<close> (lines 41 to 76)
  are parameters: the first may depend on the whole document (it climbs with
  \<^verbatim>\<open>closest\<close>), and what follows holds whatever list they find and whatever dropdown
  they build.
\<close>

datatype filter_title = Status | Services

definition mountTopFilters ::
  "(node \<Rightarrow> node \<Rightarrow> filter_title \<Rightarrow> node option) \<Rightarrow> (filter_title \<Rightarrow> node \<Rightarrow> node) \<Rightarrow> node
     \<Rightarrow> error + node" where
  "mountTopFilters findUlForFilterTitle makeDropdown doc =
     (case querySelector (Simple (ById ''changelist-filter'')) doc of
        None \<Rightarrow> Inr doc
      | Some filterRoot \<Rightarrow>
          (let toolbar = querySelector (Simple (ById ''toolbar'')) doc;
               anchor =
                 (if toolbar \<noteq> None then Some (Simple (ById ''toolbar''))
                  else if querySelector (Desc (ById ''changelist'') (ByClass ''actions'')) doc \<noteq> None
                  then Some (Desc (ById ''changelist'') (ByClass ''actions''))
                  else if querySelector (Simple (ById ''changelist'')) doc \<noteq> None
                  then Some (Simple (ById ''changelist''))
                  else None)
           in case anchor of
                None \<Rightarrow> Inr doc
              | Some anchor_sel \<Rightarrow>
                  if querySelector (Simple (ByClass ''top-filters'')) doc \<noteq> None then Inr doc
                  else
                    (let statusUl = findUlForFilterTitle doc filterRoot Status;
                         serviceUl = findUlForFilterTitle doc filterRoot Services
                     in if statusUl = None \<and> serviceUl = None then Inr doc
                        else
                          (let panel = Element ''div'' '''' [''top-filters''] []
                                 ((case statusUl of
                                     Some ul \<Rightarrow> [makeDropdown Status ul] | None \<Rightarrow> [])
                                  @ (case serviceUl of
                                       Some ul \<Rightarrow> [makeDropdown Services ul] | None \<Rightarrow> []))
                           in insert_at anchor_sel (toolbar \<noteq> None) panel doc))))"

text \<open>
  The \<^verbatim>\<open>DOMContentLoaded\<close> listener of the same file (lines 108 to 112): one call, and
  two more after 200 and 800 milliseconds, here with nothing else changing the page
  in between. An exception in the first call ends the listener before the timers are
  set; an exception in a timer leaves the page as it was and does not stop the other
  timer.
\<close>

definition header_filters_loaded ::
  "(node \<Rightarrow> node \<Rightarrow> filter_title \<Rightarrow> node option) \<Rightarrow> (filter_title \<Rightarrow> node \<Rightarrow> node) \<Rightarrow> node
     \<Rightarrow> error + node" where
  "header_filters_loaded findUlForFilterTitle makeDropdown doc =
     (case mountTopFilters findUlForFilterTitle makeDropdown doc of
        Inl e \<Rightarrow> Inl e
      | Inr d1 \<Rightarrow>
          (let d2 = (case mountTopFilters findUlForFilterTitle makeDropdown d1 of
                       Inl e \<Rightarrow> d1 | Inr d \<Rightarrow> d);
               d3 = (case mountTopFilters findUlForFilterTitle makeDropdown d2 of
                       Inl e \<Rightarrow> d2 | Inr d \<Rightarrow> d)
           in Inr d3))"

text \<open>
  The \<^verbatim>\<open>DOMContentLoaded\<close> listener of the fourth script (lines 2 to 21), which mounts
  the datalist \<^verbatim>\<open>#source_suggestions\<close>. The nine suggestions of line 13 are partly Russian
  text; \<open>suggestions\<close> is that list.
\<close>

definition source_suggestions_mount :: "string list \<Rightarrow> node \<Rightarrow> error + node" where
  "source_suggestions_mount suggestions doc =
     (if querySelector (Simple (ById ''source_suggestions'')) doc \<noteq> None then Inr doc
      else if querySelector (Simple (ByTagAttr ''input'' ''list'' ''source_suggestions'')) doc = None
      then Inr doc
      else body_appendChild
             (Element ''datalist'' ''source_suggestions'' [] []
                (map (\<lambda>v. Element ''option'' '''' [] [(''value'', v)] []) suggestions))
             doc)"

section \<open>The library handle\<close>

text \<open>
  The global \<^verbatim>\<open>django\<close>: absent, or a namespace whose \<^verbatim>\<open>jQuery\<close> is there or not.

  \<^verbatim>\<open>store_employee_autocomplete_by_service.js\<close> (lines 3 to 8, and line 56) reads the
  property \<^verbatim>\<open>window.django\<close>, which is \<^verbatim>\<open>undefined\<close> when the global is absent; without
  jQuery it writes one warning to the console and returns. The result is the console
  output and whether \<^verbatim>\<open>init\<close> was registered.

  \<^verbatim>\<open>store_changelist_filters.js\<close> (line 69) evaluates the bare identifier \<^verbatim>\<open>django\<close>,
  which raises a ReferenceError when no such global is declared. (That file closes one
  brace more than it opens, at line 121; its functions are modelled as they are
  declared.)
\<close>

record django_ns =
  jQuery :: bool

record globals =
  django :: "django_ns option"

datatype console_entry = Warn_jQuery_not_found

definition by_service_main :: "globals \<Rightarrow> error + console_entry list \<times> bool" where
  "by_service_main g =
     (let jq = (case django g of None \<Rightarrow> False | Some ns \<Rightarrow> jQuery ns)
      in if \<not> jq then Inr ([Warn_jQuery_not_found], False) else Inr ([], True))"

definition changelist_filters_handle :: "globals \<Rightarrow> error + bool" where
  "changelist_filters_handle g =
     (case django g of None \<Rightarrow> Inl ReferenceError | Some ns \<Rightarrow> Inr (jQuery ns))"

section \<open>Example inputs\<close>

text \<open>
  A row of the change list of store 123: its edit link, and the hidden input of the
  formset with the same id. And a row with neither.
\<close>

definition row_123 :: row where
  "row_123 = \<lparr>links = [''/admin/app/store/123/change/''], hidden_inputs = [(''form-0-id'', ''123'')]\<rparr>"

definition empty_row :: row where
  "empty_row = \<lparr>links = [], hidden_inputs = []\<rparr>"

text \<open>The row of store 456, with a link to the history of the store before its edit link.\<close>

definition row_456 :: row where
  "row_456 =
     \<lparr>links = [''/admin/app/store/456/history/'', ''/admin/app/store/456/change/''],
      hidden_inputs = [(''form-1-name'', ''shop''), (''form-1-id'', ''456'')]\<rparr>"

text \<open>
  A widget that select2 has initialised with a host parameter function (here the
  identity on \<^verbatim>\<open>params\<close>), in the row of store 123, not yet patched.
\<close>

definition host_widget :: widget where
  "host_widget = mk_widget (Some \<lparr>data = Function (Host (\<lambda>p. p))\<rparr>) (Some row_123)"

text \<open>
  A change-list page with a toolbar, a filter sidebar, the services column and the
  input of the source suggestions; and the location of its third page, filtered.
\<close>

definition example_page :: node where
  "example_page =
     Element ''html'' '''' [] []
       [Element ''head'' '''' [] [] [],
        Element ''body'' '''' [] []
          [Element ''div'' ''changelist'' [] []
             [Element ''div'' ''toolbar'' [] [] [],
              Element ''div'' ''changelist-filter'' [] [] [Element ''ul'' '''' [] [] []],
              Element ''table'' '''' [] []
                [Element ''th'' '''' [''column-services''] [] [Text ''services'']],
              Element ''input'' '''' [] [(''list'', ''source_suggestions'')] []]]]"

definition example_location :: location where
  "example_location =
     \<lparr>pathname = ''/admin/app/store/'',
      searchParams = [(''p'', ''3''), (''q'', ''shop''), (''service'', ''both'')]\<rparr>"

section \<open>Objects and strings: basic facts\<close>

lemma map_of_set_prop: "map_of (set_prop k v ob) = (map_of ob)(k \<mapsto> v)"
  by (induction ob) auto

lemma get_prop_set_prop_other: "k' \<noteq> k \<Longrightarrow> get_prop (set_prop k v ob) k' = get_prop ob k'"
  by (simp add: get_prop_def map_of_set_prop)

lemma get_prop_set_prop_same: "get_prop (set_prop k v ob) k = Some v"
  by (simp add: get_prop_def map_of_set_prop)

lemma filter_set_prop:
  "filter (\<lambda>p. fst p \<noteq> k) (set_prop k v ob) = filter (\<lambda>p. fst p \<noteq> k) ob"
  by (induction ob) auto


lemma keys_set_prop: "fst ` set (set_prop k v ob) = insert k (fst ` set ob)"
  by (simp add: dom_map_of_conv_image_fst [symmetric] map_of_set_prop)

lemma set_prop_idem: "set_prop k v (set_prop k v ob) = set_prop k v ob"
  by (induction ob) auto

lemma set_prop_fresh: "\<not> has_prop ob k \<Longrightarrow> set_prop k v ob = ob @ [(k, v)]"
  by (induction ob) (auto simp: has_prop_def)

lemma starts_with_append: "starts_with sub (sub @ post)"
  by (induction sub) auto

lemma str_includes_append: "str_includes sub (pre @ sub @ post)"
proof (induction pre)
  case Nil
  show ?case
  proof (cases "sub @ post")
    case Nil
    then show ?thesis by simp
  next
    case (Cons c cs)
    with starts_with_append [of sub post] show ?thesis by simp
  qed
next
  case (Cons c pre)
  then show ?case by simp
qed

subsection \<open>Edit links and hidden id inputs\<close>

text \<open>
  Whatever precedes it, a path that ends with a slash, a run of digits \<open>ds\<close> and
  \<^verbatim>\<open>/change/\<close> matches the regular expression at that suffix only, and the captured id
  is \<open>ds\<close>: at an earlier position the text after the digits is longer than
  \<^verbatim>\<open>/change/\<close>.
\<close>

lemma length_dropWhile_append:
  "s \<noteq> [] \<Longrightarrow> \<not> P (hd s) \<Longrightarrow> length s \<le> length (dropWhile P (x @ s))"
  by (induction x) (auto simp: neq_Nil_conv)

lemma match_here_before: "match_here (c # x @ CHR ''/'' # ds @ ''/change/'') = None"
proof -
  have "length (CHR ''/'' # ds @ ''/change/'')
          \<le> length (dropWhile is_digit (x @ CHR ''/'' # ds @ ''/change/''))"
    by (rule length_dropWhile_append) (simp_all add: is_digit_def)
  then have "9 \<le> length (dropWhile is_digit (x @ CHR ''/'' # ds @ ''/change/''))"
    by simp
  then have "dropWhile is_digit (x @ CHR ''/'' # ds @ ''/change/'') \<noteq> ''/change''"
    and "dropWhile is_digit (x @ CHR ''/'' # ds @ ''/change/'') \<noteq> ''/change/''"
    by auto
  then show ?thesis by (simp add: match_here_def Let_def)
qed

lemma match_here_at:
  assumes "ds \<noteq> []" and "\<forall>c \<in> set ds. is_digit c"
  shows "match_here (CHR ''/'' # ds @ ''/change/'') = Some ds"
proof -
  have n: "\<not> is_digit CHR ''/''" by (simp add: is_digit_def)
  from assms(2) have t: "takeWhile is_digit (ds @ ''/change/'') = ds"
    by (simp add: takeWhile_append2 n)
  from assms(2) have d: "dropWhile is_digit (ds @ ''/change/'') = ''/change/''"
    by (simp add: dropWhile_append2 n)
  from assms(1) t d show ?thesis by (simp add: match_here_def)
qed

lemma match_change_suffix:
  assumes "ds \<noteq> []" and "\<forall>c \<in> set ds. is_digit c"
  shows "match_change (pre @ CHR ''/'' # ds @ ''/change/'') = Some ds"
proof (induction pre)
  case Nil
  from match_here_at [OF assms] show ?case by simp
next
  case (Cons c pre)
  then show ?case by (simp add: match_here_before)
qed

lemma first_change_link:
  assumes "links r = ls1 @ (pre @ ''/'' @ ds @ ''/change/'') # ls2"
    and "\<forall>l \<in> set ls1. \<not> str_includes ''/change/'' l"
    and "ds \<noteq> []" and "\<forall>c \<in> set ds. is_digit c"
  shows "getStoreIdFromRow (Some r) = Some ds"
proof -
  have inc: "str_includes ''/change/'' (pre @ ''/'' @ ds @ ''/change/'')"
    using str_includes_append [of "''/change/''" "pre @ ''/'' @ ds" "[]"] by simp
  from assms(2) have "filter (str_includes ''/change/'') ls1 = []"
    by (simp add: filter_empty_conv)
  with assms(1) inc
  have "filter (str_includes ''/change/'') (links r) =
          (pre @ ''/'' @ ds @ ''/change/'') # filter (str_includes ''/change/'') ls2"
    by simp
  then show ?thesis
    by (simp add: getStoreIdFromRow_def match_change_suffix [OF assms(3,4)])
qed

lemma first_hidden_id:
  assumes "hidden_inputs r = hs1 @ (n, v) # hs2"
    and "\<forall>h \<in> set hs1. \<not> ends_with ''-id'' (fst h)"
    and "ends_with ''-id'' n"
  shows "getStoreIdFromRow_cl True (Some r) = jq_val v"
proof -
  from assms(2) have "filter (\<lambda>(n, v). ends_with ''-id'' n) hs1 = []"
    by (auto simp: filter_empty_conv)
  with assms(1,3)
  have "filter (\<lambda>(n, v). ends_with ''-id'' n) (hidden_inputs r) =
          (n, v) # filter (\<lambda>(n, v). ends_with ''-id'' n) hs2"
    by simp
  then show ?thesis by (simp add: getStoreIdFromRow_cl_def)
qed

lemma first_change_link_123:
  assumes "links r = ls1 @ (pre @ ''/123/change/'') # ls2"
    and "\<forall>l \<in> set ls1. \<not> str_includes ''/change/'' l"
  shows "getStoreIdFromRow (Some r) = Some ''123''"
proof -
  have d: "''123'' \<noteq> []" "\<forall>c \<in> set ''123''. is_digit c"
    by (simp_all add: is_digit_def)
  from assms(1) have "links r = ls1 @ (pre @ ''/'' @ ''123'' @ ''/change/'') # ls2"
    by simp
  from first_change_link [OF this assms(2) d] show ?thesis .
qed

section \<open>The augmented function when no base function exists\<close>

text \<open>
  Claim C3. With no prior base function the augmented function is to start from
  \<^verbatim>\<open>params\<close> and merge the contextual value in. The closure of \<^verbatim>\<open>patchEmployeeSelect2\<close>
  does not: with \<^verbatim>\<open>ajax.data\<close> undefined, line 96 starts from a fresh empty object, so in
  the row of store 123 the call with \<^verbatim>\<open>{term: "ann"}\<close> returns \<^verbatim>\<open>{store_id: "123"}\<close> and the
  search term is lost.
\<close>

theorem no_base_cl_drops_params:
  "call_data True (Some row_123) (Augmented_cl Undefined) [(''term'', Str ''ann'')]
     = Inr [(''store_id'', Str ''123'')]
   \<and> call_data True (Some row_123) (Augmented_cl Undefined) [(''term'', Str ''ann'')]
     \<noteq> Inr [(''term'', Str ''ann''), (''store_id'', Str ''123'')]"
  by (simp add: row_123_def getStoreIdFromRow_cl_def ends_with_def jq_val_def)

text \<open>
  The closure of \<^verbatim>\<open>patchSelect2Ajax\<close> does what the claim says: with \<^verbatim>\<open>ajax.data\<close>
  undefined it returns \<^verbatim>\<open>params\<close> with \<^verbatim>\<open>store_id\<close> set to the id of the row's edit link,
  and \<^verbatim>\<open>params\<close> itself when the row yields none; for every row whose first link
  containing \<^verbatim>\<open>/change/\<close> ends with \<^verbatim>\<open>/123/change/\<close> and \<^verbatim>\<open>params = {term: "ann"}\<close> it
  returns \<^verbatim>\<open>{term: "ann", store_id: "123"}\<close>.
\<close>

lemma no_base_starts_from_params:
  "call_data jq tr (Augmented Undefined) params =
     Inr (case getStoreIdFromRow tr of
            Some storeId \<Rightarrow> set_prop ''store_id'' (Str storeId) params
          | None \<Rightarrow> params)"
  by (simp split: option.splits)

lemma no_base_scenario_123:
  assumes "links r = ls1 @ (pre @ ''/123/change/'') # ls2"
    and "\<forall>l \<in> set ls1. \<not> str_includes ''/change/'' l"
  shows "call_data jq (Some r) (Augmented Undefined) [(''term'', Str ''ann'')]
           = Inr [(''term'', Str ''ann''), (''store_id'', Str ''123'')]"
  using first_change_link_123 [OF assms] by simp




section \<open>The augmented function over a base function\<close>

text \<open>
  Claim C5, as the specification words it: the output contains every key-value pair of
  the base function's output, and no entry that the base function produced is altered.
  The assignment \<^verbatim>\<open>data.store_id = storeId\<close> overwrites: when the base function itself
  returns a \<^verbatim>\<open>store_id\<close>, here 9, the output holds the id of the row instead.
\<close>

theorem base_store_id_overwritten:
  "call_data True (Some row_123) (Host (\<lambda>p. [(''store_id'', Str ''9'')])) []
     = Inr [(''store_id'', Str ''9'')]
   \<and> call_data True (Some row_123)
        (Augmented (Function (Host (\<lambda>p. [(''store_id'', Str ''9'')])))) []
     = Inr [(''store_id'', Str ''123'')]
   \<and> (''store_id'', Str ''9'') \<notin> set [(''store_id'', Str ''123'')]"
  by (simp add: row_123_def getStoreIdFromRow_def match_here_def is_digit_def)

text \<open>
  Claim C5, amended. When \<^verbatim>\<open>ajax.data\<close> held a function \<open>g\<close> and \<open>g\<close> returns the object
  \<open>b\<close>: the closure of \<^verbatim>\<open>patchSelect2Ajax\<close> returns \<open>b\<close> itself when the row yields no id,
  and \<open>b\<close> with \<^verbatim>\<open>store_id\<close> set to the row's id (in place of a \<^verbatim>\<open>store_id\<close> of \<open>b\<close>,
  appended otherwise) when it yields one; the closure of \<^verbatim>\<open>patchEmployeeSelect2\<close>
  returns \<open>b\<close> with \<^verbatim>\<open>store_id\<close> set to the extracted value, when that value is not
  empty. Both results agree with \<open>b\<close> on every key other than \<^verbatim>\<open>store_id\<close>, keep the
  entries of \<open>b\<close> under those keys in their order, have no key beyond those of \<open>b\<close> and
  \<^verbatim>\<open>store_id\<close>, and contain every entry of \<open>b\<close> when \<open>b\<close> has no \<^verbatim>\<open>store_id\<close> of its own.
\<close>

theorem base_output_preserved:
  assumes "call_data jq tr g params = Inr b"
  shows "(\<exists>r. call_data jq tr (Augmented (Function g)) params = Inr r
            \<and> (\<forall>i. getStoreIdFromRow tr = Some i \<longrightarrow> r = set_prop ''store_id'' (Str i) b)
            \<and> (getStoreIdFromRow tr = None \<longrightarrow> r = b)
            \<and> (\<forall>k. k \<noteq> ''store_id'' \<longrightarrow> get_prop r k = get_prop b k)
            \<and> filter (\<lambda>p. fst p \<noteq> ''store_id'') r = filter (\<lambda>p. fst p \<noteq> ''store_id'') b
            \<and> fst ` set r \<subseteq> insert ''store_id'' (fst ` set b)
            \<and> (\<not> has_prop b ''store_id'' \<longrightarrow> set b \<subseteq> set r))
       \<and> (\<exists>r. call_data jq tr (Augmented_cl (Function g)) params = Inr r
            \<and> (getStoreIdFromRow_cl jq tr \<noteq> '''' \<longrightarrow>
                  r = set_prop ''store_id'' (Str (getStoreIdFromRow_cl jq tr)) b)
            \<and> (\<forall>k. k \<noteq> ''store_id'' \<longrightarrow> get_prop r k = get_prop b k)
            \<and> filter (\<lambda>p. fst p \<noteq> ''store_id'') r = filter (\<lambda>p. fst p \<noteq> ''store_id'') b
            \<and> fst ` set r \<subseteq> insert ''store_id'' (fst ` set b)
            \<and> (\<not> has_prop b ''store_id'' \<longrightarrow> set b \<subseteq> set r))"
  using assms
  by (auto simp: get_prop_set_prop_other filter_set_prop keys_set_prop set_prop_fresh
      split: option.splits)

theorem base_output_preserved_witness:
  "call_data True (Some row_123) (Host (\<lambda>p. p)) [(''term'', Str ''ann'')] = Inr [(''term'', Str ''ann'')]
   \<and> getStoreIdFromRow (Some row_123) = Some ''123''
   \<and> getStoreIdFromRow_cl True (Some row_123) \<noteq> ''''
   \<and> call_data True (Some row_123) (Augmented (Function (Host (\<lambda>p. p)))) [(''term'', Str ''ann'')]
        = Inr [(''term'', Str ''ann''), (''store_id'', Str ''123'')]
   \<and> call_data True (Some row_123) (Augmented_cl (Function (Host (\<lambda>p. p)))) [(''term'', Str ''ann'')]
        = Inr [(''term'', Str ''ann''), (''store_id'', Str ''123'')]"
proof -
  let ?b = "[(''term'', Str ''ann'')]"
  have h: "call_data True (Some row_123) (Host (\<lambda>p. p)) ?b = Inr ?b"
    by simp
  have x: "getStoreIdFromRow (Some row_123) = Some ''123''"
    by (simp add: row_123_def getStoreIdFromRow_def match_here_def is_digit_def)
  have y: "getStoreIdFromRow_cl True (Some row_123) = ''123''"
    by (simp add: row_123_def getStoreIdFromRow_cl_def ends_with_def jq_val_def)
  have s: "set_prop ''store_id'' (Str ''123'') ?b = [(''term'', Str ''ann''), (''store_id'', Str ''123'')]"
    by simp
  note t = base_output_preserved [OF h]
  from t [THEN conjunct1] obtain r1 where
    r1: "call_data True (Some row_123) (Augmented (Function (Host (\<lambda>p. p)))) ?b = Inr r1"
      "\<forall>i. getStoreIdFromRow (Some row_123) = Some i \<longrightarrow> r1 = set_prop ''store_id'' (Str i) ?b"
    by blast
  from t [THEN conjunct2] obtain r2 where
    r2: "call_data True (Some row_123) (Augmented_cl (Function (Host (\<lambda>p. p)))) ?b = Inr r2"
      "getStoreIdFromRow_cl True (Some row_123) \<noteq> '''' \<longrightarrow>
         r2 = set_prop ''store_id'' (Str (getStoreIdFromRow_cl True (Some row_123))) ?b"
    by blast
  from r1(2) x s have e1: "r1 = [(''term'', Str ''ann''), (''store_id'', Str ''123'')]" by simp
  from r2(2) y s have e2: "r2 = [(''term'', Str ''ann''), (''store_id'', Str ''123'')]" by simp
  from y have z: "getStoreIdFromRow_cl True (Some row_123) \<noteq> ''''" by simp
  from h x z r1(1) r2(1) e1 e2 show ?thesis by simp
qed

section \<open>The patch procedures\<close>

lemma installed_assign_data: "installed (assign_data d w s2 oo od a) = Some d"
  by (simp add: installed_def assign_data_def)

lemma installedE:
  assumes "installed w = Some d"
  obtains s2 oo od a where "select2 w = Some s2" "options s2 = Some oo"
    "options_dict oo = Some od" "ajax od = Some a" "data a = d"
  using assms by (auto simp: installed_def split: option.splits)

text \<open>Every call of \<^verbatim>\<open>patchSelect2Ajax\<close> on a widget with an \<^verbatim>\<open>ajax\<close> object adds a layer.\<close>

lemma patchSelect2Ajax_installed:
  "installed w = Some d \<Longrightarrow>
     \<exists>w'. patchSelect2Ajax w = Inr w' \<and> installed w' = Some (Function (Augmented d))"
  by (erule installedE) (simp add: patchSelect2Ajax_def installed_assign_data)

lemma patchSelect2Ajax_no_ajax:
  "installed w = None \<Longrightarrow> patchSelect2Ajax w = Inr w"
  by (auto simp: installed_def patchSelect2Ajax_def split: option.splits)

lemma patchEmployeeSelect2_installed:
  "installed w = Some d \<Longrightarrow> \<not> patchedStoreId w \<Longrightarrow>
     \<exists>w'. patchEmployeeSelect2 True w = Inr w' \<and> installed w' = Some (Function (Augmented_cl d))
          \<and> patchedStoreId w'"
  by (erule installedE) (simp add: patchEmployeeSelect2_def installed_def assign_data_def)

text \<open>
  \<^verbatim>\<open>patchEmployeeSelect2\<close> is idempotent: once it has returned, a second call on the
  widget it left changes nothing (the marker, or the missing precondition, stops it).
\<close>

lemma patchEmployeeSelect2_idem:
  "patchEmployeeSelect2 jq w = Inr w' \<Longrightarrow> patchEmployeeSelect2 jq w' = Inr w'"
  by (auto simp: patchEmployeeSelect2_def split: if_splits option.splits)

text \<open>
  Claim C1. \<^verbatim>\<open>patchSelect2Ajax\<close> keeps no marker: called twice on the same widget (the
  handler of \<^verbatim>\<open>select2:opening\<close> calls it at every opening), it wraps the function it
  installed at the first call, and the row is read twice for each request.
\<close>

theorem patchSelect2Ajax_twice_wraps_twice:
  "(case patchSelect2Ajax host_widget of
      Inl e \<Rightarrow> None
    | Inr w1 \<Rightarrow> (case patchSelect2Ajax w1 of Inl e \<Rightarrow> None | Inr w2 \<Rightarrow> installed w2))
   = Some (Function (Augmented (Function (Augmented (Function (Host (\<lambda>p. p)))))))"
  by (simp add: host_widget_def mk_widget_def mk_select2_def patchSelect2Ajax_def assign_data_def
      installed_def)


text \<open>
  Where select2 has not initialised the element at all (\<^verbatim>\<open>data("select2")\<close> is absent),
  or has built its whole configuration without \<^verbatim>\<open>ajax\<close> settings, both patch procedures
  return normally and leave the widget, its select2 object included, as it was.
\<close>

lemma patch_skipped_without_ajax:
  assumes "select2 w = None
           \<or> (\<exists>s2 oo od. select2 w = Some s2 \<and> options s2 = Some oo
                 \<and> options_dict oo = Some od \<and> ajax od = None)"
  shows "patchSelect2Ajax w = Inr w \<and> patchEmployeeSelect2 jq w = Inr w"
  using assms by (auto simp: patchSelect2Ajax_def patchEmployeeSelect2_def)

section \<open>The contextual value\<close>

text \<open>
  Claim C2. The closure of \<^verbatim>\<open>patchEmployeeSelect2\<close> assigns \<^verbatim>\<open>store_id\<close> at every call:
  in a row without a hidden id input the extractor returns the empty string, and the
  result holds \<^verbatim>\<open>store_id\<close> with the empty string as its value.
\<close>

theorem cl_sets_empty_store_id:
  "call_data True (Some empty_row) (Augmented_cl (Function (Host (\<lambda>p. p)))) [(''term'', Str ''ann'')]
     = Inr [(''term'', Str ''ann''), (''store_id'', Str '''')]"
  by (simp add: empty_row_def getStoreIdFromRow_cl_def)

text \<open>
  The closure of \<^verbatim>\<open>patchSelect2Ajax\<close> does omit it: when the row yields no id, it returns
  what the base function (or \<^verbatim>\<open>params\<close>) gave, with no key added.
\<close>

lemma no_context_no_key:
  "getStoreIdFromRow tr = None \<Longrightarrow> old_data jq tr oldData params = Inr d \<Longrightarrow>
     call_data jq tr (Augmented oldData) params = Inr d"
  by simp

text \<open>
  Claim C8. The function that a patch procedure installs is the same whatever row
  \<open>r0\<close> surrounds the widget when it is patched. Called later, it returns the base
  result with the contextual value of the row that surrounds the widget then: for
  \<^verbatim>\<open>patchSelect2Ajax\<close> the digits \<open>ds\<close> of the first link containing \<^verbatim>\<open>/change/\<close>, when that
  link ends with \<^verbatim>\<open>/ds/change/\<close>; for \<^verbatim>\<open>patchEmployeeSelect2\<close> the value of the first hidden
  input whose name ends with \<^verbatim>\<open>-id\<close>. The result depends on the row, the closure and
  \<^verbatim>\<open>params\<close> alone, and a second call in the same state returns an equal object also
  where the first call wrote into the object it is given again (\<^verbatim>\<open>params\<close> itself when
  \<^verbatim>\<open>patchSelect2Ajax\<close> found no base function, the stored object in
  \<^verbatim>\<open>patchEmployeeSelect2\<close>).
\<close>

theorem context_read_at_call_time:
  "(installed w = Some d \<longrightarrow>
      (\<exists>w1. patchSelect2Ajax (w\<lparr>closest_tr := r0\<rparr>) = Inr w1
          \<and> installed w1 = Some (Function (Augmented d))))
   \<and> (\<forall>r ls1 pre ds ls2 b.
         links r = ls1 @ (pre @ ''/'' @ ds @ ''/change/'') # ls2
           \<and> (\<forall>l \<in> set ls1. \<not> str_includes ''/change/'' l)
           \<and> ds \<noteq> [] \<and> (\<forall>c \<in> set ds. is_digit c)
           \<and> old_data jq (Some r) d params = Inr b
         \<longrightarrow> call_data jq (Some r) (Augmented d) params = Inr (set_prop ''store_id'' (Str ds) b))
   \<and> (installed w = Some d \<and> \<not> patchedStoreId w \<longrightarrow>
      (\<exists>w1. patchEmployeeSelect2 True (w\<lparr>closest_tr := r0\<rparr>) = Inr w1
          \<and> installed w1 = Some (Function (Augmented_cl d))))
   \<and> (\<forall>r hs1 n v hs2 b.
         hidden_inputs r = hs1 @ (n, v) # hs2
           \<and> (\<forall>h \<in> set hs1. \<not> ends_with ''-id'' (fst h))
           \<and> ends_with ''-id'' n
           \<and> old_data_cl True (Some r) d params = Inr b
         \<longrightarrow> call_data True (Some r) (Augmented_cl d) params
               = Inr (set_prop ''store_id'' (Str (jq_val v)) b))
   \<and> (\<forall>res. call_data jq tr (Augmented Undefined) params = Inr res \<longrightarrow>
         call_data jq tr (Augmented Undefined) res = Inr res)
   \<and> (\<forall>res. call_data jq tr (Augmented_cl (Object ob)) params = Inr res \<longrightarrow>
         call_data jq tr (Augmented_cl (Object res)) params = Inr res)"
proof -
  have i: "installed (w\<lparr>closest_tr := r0\<rparr>) = installed w"
    by (simp add: installed_def)
  have m: "patchedStoreId (w\<lparr>closest_tr := r0\<rparr>) = patchedStoreId w"
    by simp
  have a: "installed w = Some d \<longrightarrow>
      (\<exists>w1. patchSelect2Ajax (w\<lparr>closest_tr := r0\<rparr>) = Inr w1
          \<and> installed w1 = Some (Function (Augmented d)))"
    using patchSelect2Ajax_installed [of "w\<lparr>closest_tr := r0\<rparr>" d] unfolding i by blast
  have b: "installed w = Some d \<and> \<not> patchedStoreId w \<longrightarrow>
      (\<exists>w1. patchEmployeeSelect2 True (w\<lparr>closest_tr := r0\<rparr>) = Inr w1
          \<and> installed w1 = Some (Function (Augmented_cl d)))"
    using patchEmployeeSelect2_installed [of "w\<lparr>closest_tr := r0\<rparr>" d] unfolding i m by blast
  have c: "call_data jq (Some r) (Augmented d) params = Inr (set_prop ''store_id'' (Str ds) b)"
    if "links r = ls1 @ (pre @ ''/'' @ ds @ ''/change/'') # ls2"
      "\<forall>l \<in> set ls1. \<not> str_includes ''/change/'' l" "ds \<noteq> []" "\<forall>c \<in> set ds. is_digit c"
      "old_data jq (Some r) d params = Inr b" for r ls1 pre ds ls2 b
    using first_change_link [OF that(1-4)] that(5) by simp
  have e: "call_data True (Some r) (Augmented_cl d) params
             = Inr (set_prop ''store_id'' (Str (jq_val v)) b)"
    if "hidden_inputs r = hs1 @ (n, v) # hs2" "\<forall>h \<in> set hs1. \<not> ends_with ''-id'' (fst h)"
      "ends_with ''-id'' n" "old_data_cl True (Some r) d params = Inr b" for r hs1 n v hs2 b
    using first_hidden_id [OF that(1-3)] that(4) by simp
  have f: "\<forall>res. call_data jq tr (Augmented Undefined) params = Inr res \<longrightarrow>
         call_data jq tr (Augmented Undefined) res = Inr res"
    by (auto simp: set_prop_idem split: option.splits)
  have g: "\<forall>res. call_data jq tr (Augmented_cl (Object ob)) params = Inr res \<longrightarrow>
         call_data jq tr (Augmented_cl (Object res)) params = Inr res"
    by (auto simp: set_prop_idem)
  from a b c e f g show ?thesis by blast
qed

theorem context_read_at_call_time_witness:
  "installed host_widget = Some (Function (Host (\<lambda>p. p)))
   \<and> \<not> patchedStoreId host_widget
   \<and> (\<exists>w1. patchSelect2Ajax (host_widget\<lparr>closest_tr := Some empty_row\<rparr>) = Inr w1
        \<and> installed w1 = Some (Function (Augmented (Function (Host (\<lambda>p. p))))))
   \<and> call_data True (Some row_123) (Augmented (Function (Host (\<lambda>p. p)))) [(''term'', Str ''ann'')]
        = Inr [(''term'', Str ''ann''), (''store_id'', Str ''123'')]
   \<and> call_data True (Some row_456) (Augmented (Function (Host (\<lambda>p. p)))) [(''term'', Str ''ann'')]
        = Inr [(''term'', Str ''ann''), (''store_id'', Str ''456'')]
   \<and> (\<exists>w1. patchEmployeeSelect2 True (host_widget\<lparr>closest_tr := Some empty_row\<rparr>) = Inr w1
        \<and> installed w1 = Some (Function (Augmented_cl (Function (Host (\<lambda>p. p))))))
   \<and> call_data True (Some row_123) (Augmented_cl (Function (Host (\<lambda>p. p)))) [(''term'', Str ''ann'')]
        = Inr [(''term'', Str ''ann''), (''store_id'', Str ''123'')]
   \<and> call_data True (Some row_456) (Augmented_cl (Function (Host (\<lambda>p. p)))) [(''term'', Str ''ann'')]
        = Inr [(''term'', Str ''ann''), (''store_id'', Str ''456'')]"
proof -
  let ?d = "Function (Host (\<lambda>p. p))"
  let ?p = "[(''term'', Str ''ann'')]"
  note t = context_read_at_call_time [of host_widget ?d "Some empty_row" True ?p "Some row_123" "[]"]
  have i: "installed host_widget = Some ?d" "\<not> patchedStoreId host_widget"
    by (simp_all add: host_widget_def mk_widget_def mk_select2_def installed_def)
  have dg: "''123'' \<noteq> []" "\<forall>c \<in> set ''123''. is_digit c"
    "''456'' \<noteq> []" "\<forall>c \<in> set ''456''. is_digit c"
    by (simp_all add: is_digit_def)
  have l1: "links row_123 = [] @ (''/admin/app/store'' @ ''/'' @ ''123'' @ ''/change/'') # []"
    "\<forall>l \<in> set []. \<not> str_includes ''/change/'' l"
    by (simp_all add: row_123_def)
  have l2: "links row_456
      = [''/admin/app/store/456/history/''] @ (''/admin/app/store'' @ ''/'' @ ''456'' @ ''/change/'') # []"
    "\<forall>l \<in> set [''/admin/app/store/456/history/'']. \<not> str_includes ''/change/'' l"
    by (simp_all add: row_456_def)
  have h1: "hidden_inputs row_123 = [] @ (''form-0-id'', ''123'') # []"
    "\<forall>h \<in> set []. \<not> ends_with ''-id'' (fst h)" "ends_with ''-id'' ''form-0-id''"
    by (simp_all add: row_123_def ends_with_def)
  have h2: "hidden_inputs row_456 = [(''form-1-name'', ''shop'')] @ (''form-1-id'', ''456'') # []"
    "\<forall>h \<in> set [(''form-1-name'', ''shop'')]. \<not> ends_with ''-id'' (fst h)"
    "ends_with ''-id'' ''form-1-id''"
    by (simp_all add: row_456_def ends_with_def)
  have o: "old_data True (Some row_123) ?d ?p = Inr ?p" "old_data True (Some row_456) ?d ?p = Inr ?p"
    "old_data_cl True (Some row_123) ?d ?p = Inr ?p" "old_data_cl True (Some row_456) ?d ?p = Inr ?p"
    by simp_all
  have v: "jq_val ''123'' = ''123''" "jq_val ''456'' = ''456''"
    by (simp_all add: jq_val_def)
  have s: "set_prop ''store_id'' (Str ''123'') ?p = [(''term'', Str ''ann''), (''store_id'', Str ''123'')]"
    "set_prop ''store_id'' (Str ''456'') ?p = [(''term'', Str ''ann''), (''store_id'', Str ''456'')]"
    by simp_all
  from t i have a: "\<exists>w1. patchSelect2Ajax (host_widget\<lparr>closest_tr := Some empty_row\<rparr>) = Inr w1
        \<and> installed w1 = Some (Function (Augmented ?d))"
    by blast
  from t i have b: "\<exists>w1. patchEmployeeSelect2 True (host_widget\<lparr>closest_tr := Some empty_row\<rparr>) = Inr w1
        \<and> installed w1 = Some (Function (Augmented_cl ?d))"
    by blast
  from t have c: "\<forall>r ls1 pre ds ls2 b.
         links r = ls1 @ (pre @ ''/'' @ ds @ ''/change/'') # ls2
           \<and> (\<forall>l \<in> set ls1. \<not> str_includes ''/change/'' l)
           \<and> ds \<noteq> [] \<and> (\<forall>c \<in> set ds. is_digit c)
           \<and> old_data True (Some r) ?d ?p = Inr b
         \<longrightarrow> call_data True (Some r) (Augmented ?d) ?p = Inr (set_prop ''store_id'' (Str ds) b)"
    by (rule conjunct2 [THEN conjunct1])
  from t have e: "\<forall>r hs1 n v hs2 b.
         hidden_inputs r = hs1 @ (n, v) # hs2
           \<and> (\<forall>h \<in> set hs1. \<not> ends_with ''-id'' (fst h))
           \<and> ends_with ''-id'' n
           \<and> old_data_cl True (Some r) ?d ?p = Inr b
         \<longrightarrow> call_data True (Some r) (Augmented_cl ?d) ?p
               = Inr (set_prop ''store_id'' (Str (jq_val v)) b)"
    by (rule conjunct2 [THEN conjunct2, THEN conjunct2, THEN conjunct1])
  from c [rule_format, of row_123 "[]" "''/admin/app/store''" "''123''" "[]" ?p] l1 dg o
  have c1: "call_data True (Some row_123) (Augmented ?d) ?p = Inr (set_prop ''store_id'' (Str ''123'') ?p)"
    by blast
  from c [rule_format, of row_456 "[''/admin/app/store/456/history/'']" "''/admin/app/store''"
      "''456''" "[]" ?p] l2 dg o
  have c2: "call_data True (Some row_456) (Augmented ?d) ?p = Inr (set_prop ''store_id'' (Str ''456'') ?p)"
    by blast
  from e [rule_format, of row_123 "[]" "''form-0-id''" "''123''" "[]" ?p] h1 o
  have e1: "call_data True (Some row_123) (Augmented_cl ?d) ?p
      = Inr (set_prop ''store_id'' (Str (jq_val ''123'')) ?p)"
    by blast
  from e [rule_format, of row_456 "[(''form-1-name'', ''shop'')]" "''form-1-id''" "''456''" "[]" ?p] h2 o
  have e2: "call_data True (Some row_456) (Augmented_cl ?d) ?p
      = Inr (set_prop ''store_id'' (Str (jq_val ''456'')) ?p)"
    by blast
  from i a b c1 c2 e1 e2 show ?thesis
    unfolding v s by blast
qed

section \<open>The query string update\<close>

lemma sp_delete_absent: "name \<notin> fst ` set (sp_delete name ps)"
  by (auto simp: sp_delete_def)

lemma sp_delete_keys: "fst ` set (sp_delete name ps) = fst ` set ps - {name}"
  by (force simp: sp_delete_def)

lemma filter_sp_delete:
  "(\<And>k x. P (k, x) \<Longrightarrow> k \<noteq> name) \<Longrightarrow> filter P (sp_delete name ps) = filter P ps"
  by (induction ps) (auto simp: sp_delete_def)

lemma sp_set_same:
  "filter (\<lambda>(k, x). k = name) (sp_set name v ps) = [(name, v)]"
  by (induction ps) (auto simp: sp_delete_def filter_empty_conv)

lemma sp_set_other:
  "(\<And>k x. P (k, x) \<Longrightarrow> k \<noteq> name) \<Longrightarrow> filter P (sp_set name v ps) = filter P ps"
proof (induction ps)
  case Nil
  then show ?case by auto
next
  case (Cons a ps)
  obtain k x where a: "a = (k, x)" by (cases a)
  show ?case
  proof (cases "k = name")
    case True
    with a Cons.prems filter_sp_delete [of P name ps] Cons.prems show ?thesis by auto
  next
    case False
    with a Cons show ?thesis by auto
  qed
qed

lemma sp_set_keys: "fst ` set (sp_set name v ps) = insert name (fst ` set ps)"
  by (induction ps) (force simp: sp_delete_keys)+

text \<open>
  Claim C9. For every location and every selected value, \<^verbatim>\<open>updateQuery\<close> on a filter
  parameter other than \<^verbatim>\<open>p\<close> (the change listener passes \<^verbatim>\<open>service\<close>) navigates to the
  same path with a query that has no parameter \<^verbatim>\<open>p\<close>, has no pair of the filter
  parameter when the value is empty and exactly one, holding the value, otherwise, and
  keeps every other pair as it was, in order.
\<close>

theorem updateQuery_rewrites_query:
  assumes "param \<noteq> ''p''"
  shows "pathname (updateQuery param v loc) = pathname loc
    \<and> ''p'' \<notin> fst ` set (searchParams (updateQuery param v loc))
    \<and> (v = '''' \<longrightarrow> param \<notin> fst ` set (searchParams (updateQuery param v loc)))
    \<and> (v \<noteq> '''' \<longrightarrow>
          filter (\<lambda>(k, x). k = param) (searchParams (updateQuery param v loc)) = [(param, v)])
    \<and> filter (\<lambda>(k, x). k \<noteq> ''p'' \<and> k \<noteq> param) (searchParams (updateQuery param v loc))
        = filter (\<lambda>(k, x). k \<noteq> ''p'' \<and> k \<noteq> param) (searchParams loc)"
proof -
  let ?P = "\<lambda>(k, x). k \<noteq> ''p'' \<and> k \<noteq> param"
  have o1: "filter ?P (sp_delete ''p'' ps) = filter ?P ps" for ps
    by (rule filter_sp_delete) auto
  have o2: "filter ?P (sp_delete param ps) = filter ?P ps" for ps
    by (rule filter_sp_delete) auto
  have o3: "filter ?P (sp_set param v ps) = filter ?P ps" for ps
    by (rule sp_set_other) auto
  show ?thesis
    using assms
    by (simp add: updateQuery_def Let_def sp_delete_keys sp_set_keys sp_set_same o1 o2 o3)
qed

theorem updateQuery_rewrites_query_witness:
  "''service'' \<noteq> ''p''
   \<and> updateQuery ''service'' ''merch_only'' example_location
       = \<lparr>pathname = ''/admin/app/store/'',
          searchParams = [(''q'', ''shop''), (''service'', ''merch_only'')]\<rparr>
   \<and> updateQuery ''service'' '''' example_location
       = \<lparr>pathname = ''/admin/app/store/'', searchParams = [(''q'', ''shop'')]\<rparr>
   \<and> pathname (updateQuery ''service'' ''merch_only'' example_location) = pathname example_location
   \<and> ''p'' \<notin> fst ` set (searchParams (updateQuery ''service'' ''merch_only'' example_location))
   \<and> filter (\<lambda>(k, x). k = ''service'')
        (searchParams (updateQuery ''service'' ''merch_only'' example_location))
       = [(''service'', ''merch_only'')]"
proof -
  have n: "''service'' \<noteq> ''p''" by simp
  have e: "updateQuery ''service'' ''merch_only'' example_location
       = \<lparr>pathname = ''/admin/app/store/'',
          searchParams = [(''q'', ''shop''), (''service'', ''merch_only'')]\<rparr>"
    "updateQuery ''service'' '''' example_location
       = \<lparr>pathname = ''/admin/app/store/'', searchParams = [(''q'', ''shop'')]\<rparr>"
    by (simp_all add: updateQuery_def example_location_def sp_delete_def)
  from updateQuery_rewrites_query [OF n, of "''merch_only''" example_location] n e
  show ?thesis by simp
qed

section \<open>A missing library global\<close>

text \<open>
  Claim C7. On a page where the global \<^verbatim>\<open>django\<close> is not declared,
  \<^verbatim>\<open>store_changelist_filters.js\<close> raises a ReferenceError at line 69, where
  \<^verbatim>\<open>store_employee_autocomplete_by_service.js\<close> writes its warning and returns.
\<close>

theorem changelist_filters_raises_without_django:
  "changelist_filters_handle \<lparr>django = None\<rparr> = Inl ReferenceError
   \<and> by_service_main \<lparr>django = None\<rparr> = Inr ([Warn_jQuery_not_found], False)"
  by (simp add: changelist_filters_handle_def by_service_main_def)

section \<open>Searching and changing the tree\<close>

lemma matches_children: "matches s (Element t i cs as ch) = matches s (Element t i cs as ch')"
  by (cases s) auto

lemma hit_children: "hit sel inside (Element t i cs as ch) = hit sel inside (Element t i cs as ch')"
  by (cases sel) (simp_all add: matches_children [of _ t i cs as ch ch'])

lemma enter_children: "enter sel inside (Element t i cs as ch) = enter sel inside (Element t i cs as ch')"
  by (cases sel) (simp_all add: matches_children [of _ t i cs as ch ch'])

lemma append_first_none:
  "find_first sel inside n = None \<Longrightarrow> append_first sel new inside n = None"
  "find_first_list sel inside ns = None \<Longrightarrow> append_first_list sel new inside ns = None"
  by (induction sel inside n and sel inside ns rule: find_first_find_first_list.induct)
     (auto split: if_splits option.splits)

lemma append_first_found:
  "find_first sel inside n = Some m \<Longrightarrow>
     \<exists>n'. append_first sel new inside n = Some n' \<and> find_first sel inside n' = Some (appendChild new m)"
  "find_first_list sel inside ns = Some m \<Longrightarrow>
     \<exists>ns'. append_first_list sel new inside ns = Some ns'
        \<and> find_first_list sel inside ns' = Some (appendChild new m)"
proof (induction sel inside n and sel inside ns arbitrary: m and m rule: find_first_find_first_list.induct)
  case (1 sel inside x)
  then show ?case by simp
next
  case (2 sel inside t i cs as ch)
  show ?case
  proof (cases "hit sel inside (Element t i cs as ch)")
    case True
    with 2 hit_children [of sel inside t i cs as "ch @ [new]" ch] show ?thesis by auto
  next
    case False
    with 2 obtain ch' where
      "append_first_list sel new (enter sel inside (Element t i cs as ch)) ch = Some ch'"
      "find_first_list sel (enter sel inside (Element t i cs as ch)) ch' = Some (appendChild new m)"
      by fastforce
    with False hit_children [of sel inside t i cs as ch' ch]
      enter_children [of sel inside t i cs as ch' ch]
    show ?thesis by auto
  qed
next
  case (3 sel inside)
  then show ?case by simp
next
  case (4 sel inside n ns)
  show ?case
  proof (cases "find_first sel inside n")
    case None
    with 4 append_first_none(1) [OF None, of new] show ?thesis by auto
  next
    case (Some r)
    with 4 show ?thesis by fastforce
  qed
qed

lemma find_first_Element:
  "find_first sel inside n = Some m \<Longrightarrow> \<exists>t i cs as ch. m = Element t i cs as ch"
  "find_first_list sel inside ns = Some m \<Longrightarrow> \<exists>t i cs as ch. m = Element t i cs as ch"
  by (induction sel inside n and sel inside ns rule: find_first_find_first_list.induct)
     (auto split: if_splits option.splits)

lemma find_first_list_append:
  "find_first_list sel inside ys \<noteq> None \<Longrightarrow> find_first_list sel inside (xs @ ys) \<noteq> None"
  by (induction xs) (auto split: option.splits)

lemma find_first_simple_inside:
  "find_first (Simple s) inside n = find_first (Simple s) inside' n"
  "find_first_list (Simple s) inside ns = find_first_list (Simple s) inside' ns"
proof -
  have "(sel = Simple s \<longrightarrow> find_first sel inside n = find_first sel inside' n)"
    and "(sel = Simple s \<longrightarrow> find_first_list sel inside ns = find_first_list sel inside' ns)" for sel
  proof (induction sel inside n and sel inside ns arbitrary: inside' and inside'
      rule: find_first_find_first_list.induct)
    case (1 sel inside x)
    show ?case by simp
  next
    case (2 sel inside t i cs as ch)
    show ?case
    proof
      assume s: "sel = Simple s"
      show "find_first sel inside (Element t i cs as ch) = find_first sel inside' (Element t i cs as ch)"
      proof (cases "hit sel inside (Element t i cs as ch)")
        case True
        with s show ?thesis by simp
      next
        case False
        from 2 [OF False, of inside'] s False show ?thesis by simp
      qed
    qed
  next
    case (3 sel inside)
    show ?case by simp
  next
    case (4 sel inside n ns)
    show ?case
    proof
      assume s: "sel = Simple s"
      from 4(1) [of inside'] s have n: "find_first sel inside n = find_first sel inside' n" by simp
      show "find_first_list sel inside (n # ns) = find_first_list sel inside' (n # ns)"
      proof (cases "find_first sel inside n")
        case None
        from 4(2) [OF None, of inside'] s n None show ?thesis by simp
      next
        case (Some r)
        with n have "find_first sel inside' n = Some r" by simp
        with Some show ?thesis by simp
      qed
    qed
  qed
  then show "find_first (Simple s) inside n = find_first (Simple s) inside' n"
    and "find_first_list (Simple s) inside ns = find_first_list (Simple s) inside' ns"
    by simp_all
qed

lemma find_first_new:
  "matches s new \<Longrightarrow> find_first (Simple s) inside new \<noteq> None"
  by (cases new) auto

lemma insert_rel_found:
  "insert_rel sel after new inside ns = Some ns' \<Longrightarrow> matches s new \<Longrightarrow>
     find_first_list (Simple s) b ns' \<noteq> None"
proof (induction sel after new inside ns arbitrary: ns' b rule: insert_rel.induct)
  case (1 sel after new inside)
  then show ?case by simp
next
  case (2 sel after new inside x ns)
  then show ?case by (auto split: option.splits)
next
  case (3 sel after new inside t i cs as ch ns)
  show ?case
  proof (cases "hit sel inside (Element t i cs as ch)")
    case True
    with 3(3) have "ns' = (if after then Element t i cs as ch # new # ns
                           else new # Element t i cs as ch # ns)"
      by simp
    with find_first_new [OF 3(4), of b] show ?thesis
      by (auto split: option.splits)
  next
    case False
    show ?thesis
    proof (cases "insert_rel sel after new (enter sel inside (Element t i cs as ch)) ch")
      case (Some ch')
      with False 3(3) have ns': "ns' = Element t i cs as ch' # ns" by simp
      from 3(1) [OF False Some 3(4)] have "find_first_list (Simple s) b ch' \<noteq> None" .
      with ns' show ?thesis by (auto split: option.splits)
    next
      case None
      with False 3(3) obtain r where r: "insert_rel sel after new inside ns = Some r"
        and ns': "ns' = Element t i cs as ch # r"
        by (auto split: option.splits)
      from 3(2) [OF False None r 3(4)] have "find_first_list (Simple s) b r \<noteq> None" .
      with ns' show ?thesis by (auto split: option.splits)
    qed
  qed
qed

lemma insert_at_found:
  assumes "insert_at sel after new doc = Inr doc'" and "matches s new"
  shows "doc' = doc \<or> querySelector (Simple s) doc' \<noteq> None"
proof (cases doc)
  case (Text x)
  with assms show ?thesis by (simp add: insert_at_def)
next
  case (Element t i cs as ch)
  show ?thesis
  proof (cases "insert_rel sel after new (enter sel False doc) ch")
    case None
    with assms Element show ?thesis by (auto simp: insert_at_def split: if_splits)
  next
    case (Some ch')
    with assms Element have d: "doc' = Element t i cs as ch'"
      by (auto simp: insert_at_def split: if_splits)
    from insert_rel_found [OF Some assms(2)]
    have "find_first_list (Simple s) False ch' \<noteq> None" .
    with d show ?thesis by (auto simp: querySelector_def)
  qed
qed

lemma append_to_body_found:
  "append_to_body new ns = Some ns' \<Longrightarrow> find_first_list (Simple s) b [new] \<noteq> None \<Longrightarrow>
     find_first_list (Simple s) b ns' \<noteq> None"
proof (induction new ns arbitrary: ns' rule: append_to_body.induct)
  case (1 new)
  then show ?case by simp
next
  case (2 new x ns)
  then show ?case by (auto split: option.splits)
next
  case (3 new t i cs as ch ns)
  show ?case
  proof (cases "t = ''body''")
    case True
    with 3(2) have ns': "ns' = Element t i cs as (ch @ [new]) # ns" by simp
    from find_first_list_append [OF 3(3), of ch]
    have "find_first_list (Simple s) b (ch @ [new]) \<noteq> None" .
    with ns' show ?thesis by (auto split: option.splits)
  next
    case False
    with 3 show ?thesis by (auto split: option.splits)
  qed
qed

section \<open>The insertions are idempotent\<close>

lemma mountTopFilters_guard:
  "querySelector (Simple (ByClass ''top-filters'')) doc \<noteq> None \<Longrightarrow>
     mountTopFilters f m doc = Inr doc"
  by (simp add: mountTopFilters_def Let_def split: option.splits)

lemma mountTopFilters_idem:
  assumes "mountTopFilters f m doc = Inr doc'"
  shows "mountTopFilters f m doc' = Inr doc'"
proof (cases "doc' = doc")
  case True
  with assms show ?thesis by simp
next
  case False
  from assms False obtain sel after kids where
    "insert_at sel after (Element ''div'' '''' [''top-filters''] [] kids) doc = Inr doc'"
    by (auto simp: mountTopFilters_def Let_def split: option.splits if_splits)
  from insert_at_found [OF this, of "ByClass ''top-filters''"] False
  have "querySelector (Simple (ByClass ''top-filters'')) doc' \<noteq> None" by simp
  then show ?thesis by (rule mountTopFilters_guard)
qed

lemma source_suggestions_guard:
  "querySelector (Simple (ById ''source_suggestions'')) doc \<noteq> None \<Longrightarrow>
     source_suggestions_mount sg doc = Inr doc"
  by (simp add: source_suggestions_mount_def)

lemma source_suggestions_idem:
  assumes "source_suggestions_mount sg doc = Inr doc'"
  shows "source_suggestions_mount sg doc' = Inr doc'"
proof (cases "doc' = doc")
  case True
  with assms show ?thesis by simp
next
  case False
  let ?dl = "Element ''datalist'' ''source_suggestions'' [] []
               (map (\<lambda>v. Element ''option'' '''' [] [(''value'', v)] []) sg)"
  from assms False have b: "body_appendChild ?dl doc = Inr doc'"
    by (auto simp: source_suggestions_mount_def split: if_splits)
  then obtain t i cs as ch ch' where d: "doc = Element t i cs as ch"
    "append_to_body ?dl ch = Some ch'" "doc' = Element t i cs as ch'"
    by (auto simp: body_appendChild_def split: node.splits option.splits)
  have "find_first_list (Simple (ById ''source_suggestions'')) False [?dl] \<noteq> None"
    by simp
  from append_to_body_found [OF d(2) this] d(3)
  have "querySelector (Simple (ById ''source_suggestions'')) doc' \<noteq> None"
    by (auto simp: querySelector_def)
  then show ?thesis by (rule source_suggestions_guard)
qed

lemma injectServiceFilter_guard:
  "querySelector (Simple (ByTagClass ''th'' ''column-services'')) doc = Some th \<Longrightarrow>
   querySelector_in (ByClass ''service-filter-select'') th \<noteq> None \<Longrightarrow>
     injectServiceFilter label loc doc = doc"
  by (simp add: injectServiceFilter_def)

lemma wrap_has_select:
  "find_first_list (Simple (ByClass ''service-filter-select'')) False [service_filter_wrap label loc]
     \<noteq> None"
  by (simp add: service_filter_wrap_def)

lemma injectServiceFilter_idem:
  "injectServiceFilter label loc (injectServiceFilter label loc doc) = injectServiceFilter label loc doc"
proof (cases "querySelector (Simple (ByTagClass ''th'' ''column-services'')) doc")
  case None
  then show ?thesis by (simp add: injectServiceFilter_def)
next
  case (Some th)
  show ?thesis
  proof (cases "querySelector_in (ByClass ''service-filter-select'') th \<noteq> None")
    case True
    with Some show ?thesis by (simp add: injectServiceFilter_def)
  next
    case False
    let ?sel = "Simple (ByTagClass ''th'' ''column-services'')"
    let ?w = "service_filter_wrap label loc"
    from Some have f: "find_first ?sel False doc = Some th" by (simp add: querySelector_def)
    from append_first_found(1) [OF f, of ?w] obtain doc' where
      a: "append_first ?sel ?w False doc = Some doc'"
      and q: "find_first ?sel False doc' = Some (appendChild ?w th)"
      by blast
    from Some False a have r: "injectServiceFilter label loc doc = doc'"
      by (simp add: injectServiceFilter_def)
    from find_first_Element(1) [OF f] obtain t i cs as ch where th: "th = Element t i cs as ch"
      by blast
    from find_first_list_append [OF wrap_has_select, of ch label loc]
    have "querySelector_in (ByClass ''service-filter-select'') (appendChild ?w th) \<noteq> None"
      by (simp add: th querySelector_in_def)
    with q have "injectServiceFilter label loc doc' = doc'"
      by (simp add: injectServiceFilter_def querySelector_def)
    with r show ?thesis by simp
  qed
qed

lemma header_filters_loaded_once:
  "header_filters_loaded f m doc = mountTopFilters f m doc"
proof (cases "mountTopFilters f m doc")
  case (Inl e)
  then show ?thesis by (simp add: header_filters_loaded_def)
next
  case (Inr d)
  from mountTopFilters_idem [OF Inr] Inr show ?thesis
    by (simp add: header_filters_loaded_def Let_def)
qed

text \<open>
  Claim C10. Each of the three insertions leaves the document as it is when the
  element it would create is there: an element of class \<^verbatim>\<open>top-filters\<close>, a
  \<^verbatim>\<open>.service-filter-select\<close> inside the header cell \<^verbatim>\<open>th.column-services\<close>, an element with
  the id \<^verbatim>\<open>source_suggestions\<close>. And each is idempotent: a call on the document that a
  call returned changes nothing, so the three calls of the \<^verbatim>\<open>DOMContentLoaded\<close> listener
  of the header filters amount to one, and no call after the first inserts anything.
\<close>

theorem injections_idempotent:
  "(querySelector (Simple (ByClass ''top-filters'')) doc \<noteq> None \<longrightarrow>
      mountTopFilters f m doc = Inr doc)
   \<and> (\<forall>doc'. mountTopFilters f m doc = Inr doc' \<longrightarrow> mountTopFilters f m doc' = Inr doc')
   \<and> header_filters_loaded f m doc = mountTopFilters f m doc
   \<and> (\<forall>th. querySelector (Simple (ByTagClass ''th'' ''column-services'')) doc = Some th
           \<and> querySelector_in (ByClass ''service-filter-select'') th \<noteq> None \<longrightarrow>
         injectServiceFilter label loc doc = doc)
   \<and> injectServiceFilter label loc (injectServiceFilter label loc doc)
       = injectServiceFilter label loc doc
   \<and> (querySelector (Simple (ById ''source_suggestions'')) doc \<noteq> None \<longrightarrow>
         source_suggestions_mount sg doc = Inr doc)
   \<and> (\<forall>doc'. source_suggestions_mount sg doc = Inr doc' \<longrightarrow>
         source_suggestions_mount sg doc' = Inr doc')"
  using mountTopFilters_guard [of doc f m] mountTopFilters_idem [of f m doc]
    header_filters_loaded_once [of f m doc]
    injectServiceFilter_guard [of doc _ label loc] injectServiceFilter_idem [of label loc doc]
    source_suggestions_guard [of doc sg] source_suggestions_idem [of sg doc]
  by blast

theorem injections_idempotent_witness:
  "(\<exists>d. mountTopFilters (\<lambda>doc root t. Some (Element ''ul'' '''' [] [] []))
            (\<lambda>t ul. Element ''span'' '''' [''top-filter''] [] []) example_page = Inr d
        \<and> d \<noteq> example_page
        \<and> querySelector (Simple (ByClass ''top-filters'')) d \<noteq> None
        \<and> mountTopFilters (\<lambda>doc root t. Some (Element ''ul'' '''' [] [] []))
            (\<lambda>t ul. Element ''span'' '''' [''top-filter''] [] []) d = Inr d)
   \<and> (\<exists>d. injectServiceFilter (\<lambda>v. v) example_location example_page = d
        \<and> d \<noteq> example_page
        \<and> injectServiceFilter (\<lambda>v. v) example_location d = d)
   \<and> (\<exists>d. source_suggestions_mount [''HH.ru'', ''Avito''] example_page = Inr d
        \<and> d \<noteq> example_page
        \<and> querySelector (Simple (ById ''source_suggestions'')) d \<noteq> None
        \<and> source_suggestions_mount [''HH.ru'', ''Avito''] d = Inr d)"
proof -
  let ?f = "\<lambda>(doc::node) (root::node) (t::filter_title). Some (Element ''ul'' '''' [] [] [])"
  let ?m = "\<lambda>(t::filter_title) (ul::node). Element ''span'' '''' [''top-filter''] [] []"
  obtain d1 where d1: "mountTopFilters ?f ?m example_page = Inr d1" "d1 \<noteq> example_page"
    "querySelector (Simple (ByClass ''top-filters'')) d1 \<noteq> None"
    by (simp add: mountTopFilters_def example_page_def querySelector_def insert_at_def Let_def)
  obtain d2 where d2: "injectServiceFilter (\<lambda>v. v) example_location example_page = d2"
    "d2 \<noteq> example_page"
    by (simp add: injectServiceFilter_def example_page_def querySelector_def querySelector_in_def
        service_filter_wrap_def)
  obtain d3 where d3: "source_suggestions_mount [''HH.ru'', ''Avito''] example_page = Inr d3"
    "d3 \<noteq> example_page" "querySelector (Simple (ById ''source_suggestions'')) d3 \<noteq> None"
    by (simp add: source_suggestions_mount_def example_page_def querySelector_def
        body_appendChild_def)
  note t1 = injections_idempotent [of example_page ?f ?m "\<lambda>v. v" example_location
      "[''HH.ru'', ''Avito'']"]
  note t2 = injections_idempotent [of d1 ?f ?m "\<lambda>v. v" example_location "[''HH.ru'', ''Avito'']"]
  note t3 = injections_idempotent [of d3 ?f ?m "\<lambda>v. v" example_location "[''HH.ru'', ''Avito'']"]
  from t2 d1(3) have a: "mountTopFilters ?f ?m d1 = Inr d1" by blast
  from t1 d2(1) have b: "injectServiceFilter (\<lambda>v. v) example_location d2 = d2" by simp
  from t3 d3(3) have c: "source_suggestions_mount [''HH.ru'', ''Avito''] d3 = Inr d3" by blast
  from d1 a d2 b d3 c show ?thesis by blast
qed

end
